theory Spec2Isabelle
  imports Complex_Main
begin

section \<open>Data model of \<open>HueLightProject.py\<close>\<close>

text \<open>
  The program is one class, \<open>LightApp\<close>. Its state is the list \<open>self.lights\<close> of light
  dictionaries, the dictionary \<open>self.light_controls\<close>, the widget tree under
  \<open>self.light_frame\<close> and the bridge handle \<open>self.bridge\<close>.

  A light dictionary is a mutable Python object that is shared between \<open>self.lights\<close> and
  the closures of the widgets, so the dictionaries live in an explicit store: \<open>heap\<close> maps
  an object reference to the dictionary it holds, and \<open>lights\<close> is a list of references.
  The handlers \<open>toggle_light\<close>, \<open>set_brightness\<close> and \<open>pick_color\<close> receive the
  dictionary object itself, that is, a reference.

  Exceptions are values. The names follow the specification: an exception raised by a call
  to the bridge is \<open>DeviceServiceError\<close>, the \<open>ValueError\<close> of \<open>int(light_id)\<close> is
  \<open>ConversionError\<close>. No statement of the program raises for an unknown light; the
  constructor \<open>UnknownLightError\<close> exists so that this can be said.
  Floating point numbers are modelled by the reals, so every arithmetic step is exact.
\<close>

datatype error = DeviceServiceError | ConversionError | UnknownLightError | ZeroDivisionError

record light =
  light_id :: int
  name :: string
  environment :: string
  state :: bool
  brightness :: int
  hue :: int
  saturation :: int

text \<open>Values sent to the bridge, and the two shapes of \<open>Bridge.set_light\<close> calls.\<close>

datatype py_val = PyBool bool | PyInt int

datatype command =
    SetField int string py_val
  | SetFields int "(string \<times> py_val) list"

text \<open>
  A key of the dictionary returned by \<open>get_light_objects('id')\<close> is an integer or a
  string; the value is a light object of the bridge library, whose attributes \<open>hue\<close> and
  \<open>saturation\<close> may be absent (\<open>None\<close> here), which is the case \<open>getattr\<close> with a
  default covers. Reading an attribute of a light object is taken to return: what the
  library does behind the attribute is outside the program.
\<close>

datatype py_key = KeyInt int | KeyStr string

record hue_light =
  dev_name :: string
  dev_on :: bool
  dev_brightness :: int
  dev_hue :: "int option"
  dev_saturation :: "int option"

text \<open>
  The bridge is an external service. \<open>reachable\<close> says whether a call to it returns or
  raises, \<open>reported\<close> is the content of its enumeration, in the order of the dictionary,
  and \<open>requests\<close> records every \<open>set_light\<close> call made, in order.
\<close>

record bridge =
  reachable :: bool
  reported :: "(py_key \<times> hue_light) list"
  requests :: "command list"

text \<open>
  One control block of the window: the label text, the values the \<open>BooleanVar\<close> and the
  \<open>IntVar\<close> were created with, and the dictionary object bound into the three callbacks.
\<close>

record light_block =
  blk_light :: nat
  blk_name :: string
  blk_toggle :: bool
  blk_brightness :: int

record app =
  bridge :: bridge
  heap :: "nat \<Rightarrow> light"
  next_ref :: nat
  lights :: "nat list"
  light_controls :: "int \<rightharpoonup> bool \<times> int"
  light_frame :: "(string \<times> light_block list) list"
  stdout :: "string list"

section \<open>Python primitives\<close>

text \<open>\<open>int(x)\<close> on a number truncates toward zero.\<close>

definition py_trunc :: "real \<Rightarrow> int" where
  "py_trunc x = (if 0 \<le> x then \<lfloor>x\<rfloor> else \<lceil>x\<rceil>)"

text \<open>
  \<open>int(s)\<close> on a string (ASCII): surrounding whitespace is skipped, one sign is allowed,
  then decimal digits, where single underscores may separate digits. Anything else raises
  \<open>ValueError\<close>, which is \<open>None\<close> here. Python integers are unbounded, and so is the
  result; the limit that recent interpreters put on the number of digits is left out.
\<close>

definition is_space :: "char \<Rightarrow> bool" where
  "is_space c = (c = CHR '' '' \<or> (9 \<le> (of_char c :: nat) \<and> (of_char c :: nat) \<le> 13))"

definition is_digit :: "char \<Rightarrow> bool" where
  "is_digit c = (48 \<le> (of_char c :: nat) \<and> (of_char c :: nat) \<le> 57)"

definition digit_val :: "char \<Rightarrow> nat" where
  "digit_val c = of_char c - 48"

fun parse_digits :: "string \<Rightarrow> bool \<Rightarrow> nat \<Rightarrow> nat option" where
  "parse_digits [] prev acc = (if prev then Some acc else None)"
| "parse_digits (c # cs) prev acc =
     (if is_digit c then parse_digits cs True (acc * 10 + digit_val c)
      else if c = CHR ''_'' \<and> prev then parse_digits cs False acc
      else None)"

definition strip_right :: "string \<Rightarrow> string" where
  "strip_right s = rev (dropWhile is_space (rev s))"

definition int_of_str :: "string \<Rightarrow> int option" where
  "int_of_str s =
     (case dropWhile is_space s of
        [] \<Rightarrow> None
      | c # cs \<Rightarrow>
          if c = CHR ''-'' then map_option (\<lambda>n. - int n) (parse_digits (strip_right cs) False 0)
          else if c = CHR ''+'' then map_option int (parse_digits (strip_right cs) False 0)
          else map_option int (parse_digits (strip_right (c # cs)) False 0))"

fun py_int :: "py_key \<Rightarrow> int option" where
  "py_int (KeyInt n) = Some n"
| "py_int (KeyStr s) = int_of_str s"

text \<open>\<open>str(n)\<close> on an integer, as the f-strings of the \<open>print\<close> calls apply it.\<close>

fun str_nat :: "nat \<Rightarrow> string" where
  "str_nat n =
     (if n < 10 then [char_of (48 + n)]
      else str_nat (n div 10) @ [char_of (48 + n mod 10)])"

declare str_nat.simps [simp del]

definition str_int :: "int \<Rightarrow> string" where
  "str_int i = (if i < 0 then CHR ''-'' # str_nat (nat (- i)) else str_nat (nat i))"

text \<open>
  \<open>colorsys.rgb_to_hsv\<close> of the standard library. \<open>h % 1.0\<close> with a positive divisor is
  the fractional part. The division by \<open>maxc\<close> raises when \<open>maxc\<close> is zero.
\<close>

definition rgb_to_hsv :: "real \<Rightarrow> real \<Rightarrow> real \<Rightarrow> error + real \<times> real \<times> real" where
  "rgb_to_hsv r g b =
     (let maxc = max (max r g) b;
          minc = min (min r g) b;
          rangec = maxc - minc;
          v = maxc
      in if minc = maxc then Inr (0, 0, v)
         else if maxc = 0 then Inl ZeroDivisionError
         else
           let s = rangec / maxc;
               rc = (maxc - r) / rangec;
               gc = (maxc - g) / rangec;
               bc = (maxc - b) / rangec;
               h = (if r = maxc then bc - gc
                    else if g = maxc then 2 + rc - bc
                    else 4 + gc - rc)
           in Inr (frac (h / 6), s, v))"

section \<open>The bridge\<close>

definition get_light_objects :: "bridge \<Rightarrow> error + (py_key \<times> hue_light) list" where
  "get_light_objects b = (if reachable b then Inr (reported b) else Inl DeviceServiceError)"

definition set_light :: "bridge \<Rightarrow> command \<Rightarrow> (error + unit) \<times> bridge" where
  "set_light b c =
     (if reachable b then Inr () else Inl DeviceServiceError,
      b\<lparr>requests := requests b @ [c]\<rparr>)"

section \<open>\<open>LightApp\<close>\<close>

subsection \<open>\<open>get_lights_from_hue\<close>\<close>

definition make_light :: "int \<Rightarrow> hue_light \<Rightarrow> light" where
  "make_light i d =
     \<lparr>light_id = i,
      name = dev_name d,
      environment = ''Default'',
      state = dev_on d,
      brightness = dev_brightness d,
      hue = (case dev_hue d of None \<Rightarrow> 0 | Some h \<Rightarrow> h),
      saturation = (case dev_saturation d of None \<Rightarrow> 254 | Some s \<Rightarrow> s)\<rparr>"

text \<open>The \<open>for\<close> loop over \<open>lights.items()\<close>; the accumulator is \<open>light_list\<close>.\<close>

fun collect_lights :: "(py_key \<times> hue_light) list \<Rightarrow> light list \<Rightarrow> error + light list" where
  "collect_lights [] light_list = Inr light_list"
| "collect_lights ((k, d) # rest) light_list =
     (case py_int k of
        None \<Rightarrow> Inl ConversionError
      | Some i \<Rightarrow> collect_lights rest (light_list @ [make_light i d]))"

definition get_lights_from_hue :: "bridge \<Rightarrow> error + light list" where
  "get_lights_from_hue b =
     (case get_light_objects b of
        Inl e \<Rightarrow> Inl e
      | Inr items \<Rightarrow> collect_lights items [])"

subsection \<open>\<open>populate_lights\<close>\<close>

text \<open>
  The widget tree under \<open>self.light_frame\<close> is a list of environment frames in packing
  order, each with its label text and the control blocks packed into it. The local
  dictionary \<open>env_frames\<close> has exactly the labels of that list as keys.
\<close>

text \<open>
  \<open>pack_block\<close> packs a control block into the frame of its environment. The loop has
  created that frame before, so the empty list is never reached with a block to place.
\<close>

fun pack_block :: "string \<Rightarrow> light_block \<Rightarrow> (string \<times> light_block list) list
    \<Rightarrow> (string \<times> light_block list) list" where
  "pack_block env blk [] = []"
| "pack_block env blk ((e, blks) # fs) =
     (if e = env then (e, blks @ [blk]) # fs else (e, blks) # pack_block env blk fs)"

definition block_of :: "(nat \<Rightarrow> light) \<Rightarrow> nat \<Rightarrow> light_block" where
  "block_of h r =
     \<lparr>blk_light = r, blk_name = name (h r), blk_toggle = state (h r),
      blk_brightness = brightness (h r)\<rparr>"

text \<open>
  The body of the loop, for the dictionary at reference \<open>r\<close>: the frame of the environment
  is created at the end of the window when its name is new, the control block is packed
  into the frame of its environment, and \<open>light_controls\<close> gets the two variables under
  the identifier of the light.
\<close>

definition populate_step :: "(nat \<Rightarrow> light) \<Rightarrow> nat
    \<Rightarrow> (string \<times> light_block list) list \<times> (int \<rightharpoonup> bool \<times> int)
    \<Rightarrow> (string \<times> light_block list) list \<times> (int \<rightharpoonup> bool \<times> int)" where
  "populate_step h r fc =
     (let l = h r;
          env = environment l;
          frames = (if env \<notin> set (map fst (fst fc)) then fst fc @ [(env, [])] else fst fc)
      in (pack_block env (block_of h r) frames,
          (snd fc)(light_id l \<mapsto> (state l, brightness l))))"

text \<open>
  The widgets of the previous build are destroyed and \<open>light_controls\<close> is cleared before
  the loop runs over \<open>self.lights\<close>.
\<close>

definition populate_lights :: "app \<Rightarrow> app" where
  "populate_lights st =
     (let fc = fold (populate_step (heap st)) (lights st) ([], Map.empty)
      in st\<lparr>light_frame := fst fc, light_controls := snd fc\<rparr>)"

subsection \<open>The handlers\<close>

definition toggle_light :: "nat \<Rightarrow> bool \<Rightarrow> app \<Rightarrow> (error + unit) \<times> app" where
  "toggle_light r var st =
     (let l = (heap st r)\<lparr>state := var\<rparr>;
          st1 = st\<lparr>heap := (heap st)(r := l)\<rparr>;
          (res, b) = set_light (bridge st1) (SetField (light_id l) ''on'' (PyBool (state l)));
          st2 = st1\<lparr>bridge := b\<rparr>
      in case res of
           Inl e \<Rightarrow> (Inl e, st2)
         | Inr u \<Rightarrow>
             (Inr (),
              st2\<lparr>stdout := stdout st2 @
                [''Toggled '' @ name l @ '' to '' @ (if state l then ''ON'' else ''OFF'')]\<rparr>))"

text \<open>
  The variable of the slider holds a number, which need not be whole;
  \<open>int(var.get())\<close> is its truncation.
\<close>

definition set_brightness :: "nat \<Rightarrow> real \<Rightarrow> app \<Rightarrow> (error + unit) \<times> app" where
  "set_brightness r var st =
     (let l = heap st r;
          bri = py_trunc var;
          (res, b) = set_light (bridge st) (SetField (light_id l) ''bri'' (PyInt bri));
          st1 = st\<lparr>bridge := b\<rparr>
      in case res of
           Inl e \<Rightarrow> (Inl e, st1)
         | Inr u \<Rightarrow>
             (Inr (),
              st1\<lparr>stdout := stdout st1 @
                [''Set '' @ name l @ '' brightness to '' @ str_int bri]\<rparr>))"

text \<open>
  Lines 125 to 128 of \<open>pick_color\<close>: the conversion of a normalised colour to the hue and
  saturation values of the device.
\<close>

definition to_device_color :: "real \<Rightarrow> real \<Rightarrow> real \<Rightarrow> error + int \<times> int" where
  "to_device_color r g b =
     (case rgb_to_hsv r g b of
        Inl e \<Rightarrow> Inl e
      | Inr (h, s, v) \<Rightarrow> Inr (py_trunc (h * 65535), py_trunc (s * 254)))"

text \<open>
  The colour chooser returns \<open>None\<close> when it is dismissed, and otherwise a triple of
  channel values, which are natural numbers.
\<close>

definition pick_color :: "nat \<Rightarrow> (nat \<times> nat \<times> nat) option \<Rightarrow> app \<Rightarrow> (error + unit) \<times> app" where
  "pick_color r color st =
     (case color of
        None \<Rightarrow> (Inr (), st)
      | Some (c0, c1, c2) \<Rightarrow>
          (case to_device_color (real c0 / 255) (real c1 / 255) (real c2 / 255) of
             Inl e \<Rightarrow> (Inl e, st)
           | Inr (hue_value, saturation_value) \<Rightarrow>
               let l = heap st r;
                   st1 = st\<lparr>stdout := stdout st @
                     [''Set '' @ name l @ '' to Hue: '' @ str_int hue_value @
                      '', Saturation: '' @ str_int saturation_value]\<rparr>;
                   (res, b) = set_light (bridge st1)
                     (SetFields (light_id l)
                        [(''hue'', PyInt hue_value), (''sat'', PyInt saturation_value),
                         (''on'', PyBool True)])
               in (res, st1\<lparr>bridge := b\<rparr>)))"

subsection \<open>\<open>refresh_lights\<close>\<close>

text \<open>
  The assignment \<open>self.lights = ...\<close> puts the freshly built dictionaries into the store
  and makes \<open>self.lights\<close> the list of their references. It happens only when
  \<open>get_lights_from_hue\<close> has returned.
\<close>

fun store_lights :: "light list \<Rightarrow> app \<Rightarrow> nat list \<times> app" where
  "store_lights [] st = ([], st)"
| "store_lights (l # ls) st =
     (let r = next_ref st;
          (rs, st') = store_lights ls (st\<lparr>heap := (heap st)(r := l), next_ref := Suc r\<rparr>)
      in (r # rs, st'))"

definition refresh_lights :: "app \<Rightarrow> (error + unit) \<times> app" where
  "refresh_lights st =
     (case get_lights_from_hue (bridge st) of
        Inl e \<Rightarrow> (Inl e, st)
      | Inr light_list \<Rightarrow>
          let (rs, st1) = store_lights light_list st
          in (Inr (), populate_lights (st1\<lparr>lights := rs\<rparr>)))"

section \<open>Order of first occurrence\<close>

text \<open>
  The names of a list, each once, in the order in which they first occur: the order the
  specification asks of the environment partitions.
\<close>

fun first_seen :: "'a list \<Rightarrow> 'a list" where
  "first_seen [] = []"
| "first_seen (x # xs) = x # removeAll x (first_seen xs)"

text \<open>
  The grouping the specification describes, written without a loop: one entry for each
  environment name in order of first occurrence, holding the control blocks of the lights
  of that environment in the order of the input.
\<close>

definition group_of :: "(nat \<Rightarrow> light) \<Rightarrow> nat list \<Rightarrow> string \<Rightarrow> light_block list" where
  "group_of h rs e = map (block_of h) (filter (\<lambda>r. environment (h r) = e) rs)"

definition view_of :: "(nat \<Rightarrow> light) \<Rightarrow> nat list \<Rightarrow> (string \<times> light_block list) list" where
  "view_of h rs =
     map (\<lambda>e. (e, group_of h rs e)) (first_seen (map (\<lambda>r. environment (h r)) rs))"

section \<open>Example states\<close>

text \<open>
  A registry of two lights, as in the scenario of the specification, and a third
  dictionary object (reference 2, identifier 99) that \<open>self.lights\<close> does not contain.
\<close>

definition desk :: light where
  "desk = \<lparr>light_id = 1, name = ''Desk'', environment = ''Default'', state = False,
            brightness = 100, hue = 1000, saturation = 100\<rparr>"

definition lamp :: light where
  "lamp = \<lparr>light_id = 2, name = ''Lamp'', environment = ''Default'', state = True,
            brightness = 200, hue = 0, saturation = 254\<rparr>"

definition stale :: light where
  "stale = \<lparr>light_id = 99, name = ''Old'', environment = ''Default'', state = False,
             brightness = 50, hue = 0, saturation = 254\<rparr>"

definition desk_dev :: hue_light where
  "desk_dev = \<lparr>dev_name = ''Desk'', dev_on = False, dev_brightness = 100,
                dev_hue = Some 1000, dev_saturation = Some 100\<rparr>"

definition lamp_dev :: hue_light where
  "lamp_dev = \<lparr>dev_name = ''Lamp'', dev_on = True, dev_brightness = 200,
                dev_hue = None, dev_saturation = None\<rparr>"

definition demo_bridge :: bridge where
  "demo_bridge =
     \<lparr>reachable = True, reported = [(KeyInt 1, desk_dev), (KeyStr ''2'', lamp_dev)],
      requests = []\<rparr>"

definition demo_app :: app where
  "demo_app =
     \<lparr>bridge = demo_bridge,
      heap = (\<lambda>r. if r = 0 then desk else if r = 1 then lamp else stale),
      next_ref = 3, lights = [0, 1], light_controls = Map.empty, light_frame = [],
      stdout = []\<rparr>"

text \<open>The same application with a bridge that does not answer.\<close>

definition offline_app :: app where
  "offline_app = demo_app\<lparr>bridge := demo_bridge\<lparr>reachable := False\<rparr>\<rparr>"


text \<open>Three lights in two environments, for the grouping of \<open>populate_lights\<close>.\<close>

definition rooms_app :: app where
  "rooms_app =
     demo_app\<lparr>heap := (\<lambda>r. if r = 0 then desk\<lparr>environment := ''Kitchen''\<rparr>
                          else if r = 1 then lamp\<lparr>environment := ''Hall''\<rparr>
                          else stale\<lparr>environment := ''Kitchen''\<rparr>),
               lights := [0, 1, 2]\<rparr>"

section \<open>Truncation and the colour conversion\<close>

lemma py_trunc_bounds:
  assumes "0 \<le> x" "x \<le> of_int n"
  shows "0 \<le> py_trunc x \<and> py_trunc x \<le> n"
  using assms by (simp add: py_trunc_def floor_le_iff le_floor_iff)

lemma rgb_to_hsv_grey:
  assumes "min (min r g) b = max (max r g) b"
  shows "rgb_to_hsv r g b = Inr (0, 0, max (max r g) b)"
  unfolding rgb_to_hsv_def Let_def using assms by (rule if_P)

lemma rgb_to_hsv_colour:
  assumes ne: "min (min r g) b \<noteq> max (max r g) b" and nz: "max (max r g) b \<noteq> 0"
  shows "\<exists>h. rgb_to_hsv r g b =
    Inr (frac h, (max (max r g) b - min (min r g) b) / max (max r g) b, max (max r g) b)"
proof -
  have a: "(min (min r g) b = max (max r g) b) = False" using ne by blast
  have b: "(max (max r g) b = 0) = False" using nz by blast
  show ?thesis unfolding rgb_to_hsv_def Let_def a b if_False by blast
qed

text \<open>
  On channel values that are not negative the transform returns, with the hue in \<open>[0, 1)\<close>
  and the saturation in \<open>[0, 1]\<close>.
\<close>

lemma rgb_to_hsv_nonneg:
  assumes "0 \<le> r" "0 \<le> g" "0 \<le> b"
  shows "\<exists>h s v. rgb_to_hsv r g b = Inr (h, s, v) \<and> 0 \<le> h \<and> h < 1 \<and> 0 \<le> s \<and> s \<le> 1"
proof -
  define maxc where "maxc = max (max r g) b"
  define minc where "minc = min (min r g) b"
  have lo: "0 \<le> minc" using assms by (simp add: minc_def)
  have le: "minc \<le> maxc" unfolding minc_def maxc_def by linarith
  show ?thesis
  proof (cases "minc = maxc")
    case True
    then have "rgb_to_hsv r g b = Inr (0, 0, maxc)"
      unfolding minc_def maxc_def by (rule rgb_to_hsv_grey)
    then show ?thesis by simp
  next
    case False
    with lo le have pos: "0 < maxc" by linarith
    have s: "0 \<le> (maxc - minc) / maxc \<and> (maxc - minc) / maxc \<le> 1"
      using pos lo le by (simp add: divide_le_eq)
    from pos have nz: "maxc \<noteq> 0" by simp
    have "\<exists>h. rgb_to_hsv r g b = Inr (frac h, (maxc - minc) / maxc, maxc)"
      using False nz unfolding minc_def maxc_def by (rule rgb_to_hsv_colour)
    then obtain h where "rgb_to_hsv r g b = Inr (frac h, (maxc - minc) / maxc, maxc)" ..
    with s show ?thesis by (simp add: frac_lt_1)
  qed
qed

lemma to_device_color_nonneg:
  assumes "0 \<le> r" "0 \<le> g" "0 \<le> b"
  shows "\<exists>h s v. rgb_to_hsv r g b = Inr (h, s, v) \<and>
           to_device_color r g b = Inr (py_trunc (h * 65535), py_trunc (s * 254)) \<and>
           0 \<le> py_trunc (h * 65535) \<and> py_trunc (h * 65535) \<le> 65535 \<and>
           0 \<le> py_trunc (s * 254) \<and> py_trunc (s * 254) \<le> 254"
proof -
  from rgb_to_hsv_nonneg [OF assms] obtain h s v where
    hsv: "rgb_to_hsv r g b = Inr (h, s, v)" and h: "0 \<le> h" "h < 1" and s: "0 \<le> s" "s \<le> 1"
    by blast
  have "0 \<le> h * 65535" "h * 65535 \<le> of_int 65535" using h by simp_all
  then have hb: "0 \<le> py_trunc (h * 65535) \<and> py_trunc (h * 65535) \<le> 65535"
    by (rule py_trunc_bounds)
  have "0 \<le> s * 254" "s * 254 \<le> of_int 254" using s by simp_all
  then have sb: "0 \<le> py_trunc (s * 254) \<and> py_trunc (s * 254) \<le> 254"
    by (rule py_trunc_bounds)
  from hsv hb sb show ?thesis by (simp add: to_device_color_def)
qed



lemma to_device_color_green: "to_device_color 0 1 0 = Inr (21845, 254)"
  by (simp add: to_device_color_def rgb_to_hsv_def Let_def py_trunc_def frac_def)




section \<open>The handlers\<close>

lemma set_brightness_effect:
  "heap (snd (set_brightness r v st)) = heap st"
  "lights (snd (set_brightness r v st)) = lights st"
  "requests (bridge (snd (set_brightness r v st))) =
     requests (bridge st) @ [SetField (light_id (heap st r)) ''bri'' (PyInt (py_trunc v))]"
  "fst (set_brightness r v st) = (if reachable (bridge st) then Inr () else Inl DeviceServiceError)"
  by (simp_all add: set_brightness_def set_light_def Let_def split: sum.splits)

lemma toggle_light_effect:
  "heap (snd (toggle_light r v st)) = (heap st)(r := (heap st r)\<lparr>state := v\<rparr>)"
  "lights (snd (toggle_light r v st)) = lights st"
  "requests (bridge (snd (toggle_light r v st))) =
     requests (bridge st) @ [SetField (light_id (heap st r)) ''on'' (PyBool v)]"
  "fst (toggle_light r v st) = (if reachable (bridge st) then Inr () else Inl DeviceServiceError)"
  by (simp_all add: toggle_light_def set_light_def Let_def split: sum.splits)

text \<open>The channel values of the chooser are never negative, so the conversion returns.\<close>

lemma to_device_color_channels:
  "\<exists>hv sv. to_device_color (real c0 / 255) (real c1 / 255) (real c2 / 255) = Inr (hv, sv)"
proof -
  have "0 \<le> real c0 / 255" "0 \<le> real c1 / 255" "0 \<le> real c2 / 255" by simp_all
  from to_device_color_nonneg [OF this] show ?thesis by blast
qed

lemma pick_color_Some:
  assumes "to_device_color (real c0 / 255) (real c1 / 255) (real c2 / 255) = Inr (hv, sv)"
  shows "pick_color r (Some (c0, c1, c2)) st =
    (if reachable (bridge st) then Inr () else Inl DeviceServiceError,
     st\<lparr>stdout := stdout st @
           [''Set '' @ name (heap st r) @ '' to Hue: '' @ str_int hv @
            '', Saturation: '' @ str_int sv],
        bridge := (bridge st)\<lparr>requests := requests (bridge st) @
           [SetFields (light_id (heap st r))
              [(''hue'', PyInt hv), (''sat'', PyInt sv), (''on'', PyBool True)]]\<rparr>\<rparr>)"
  using assms by (simp add: pick_color_def set_light_def Let_def)

lemma pick_color_heap:
  "heap (snd (pick_color r c st)) = heap st \<and> lights (snd (pick_color r c st)) = lights st"
proof (cases c)
  case None
  then show ?thesis by (simp add: pick_color_def)
next
  case (Some t)
  obtain c0 c1 c2 where t: "t = (c0, c1, c2)" by (cases t) auto
  from to_device_color_channels [of c0 c1 c2] obtain hv sv where
    "to_device_color (real c0 / 255) (real c1 / 255) (real c2 / 255) = Inr (hv, sv)" by blast
  from pick_color_Some [OF this] Some t show ?thesis by simp
qed

lemma pick_color_result: "fst (pick_color r c st) \<noteq> Inl UnknownLightError"
proof (cases c)
  case None
  then show ?thesis by (simp add: pick_color_def)
next
  case (Some t)
  obtain c0 c1 c2 where t: "t = (c0, c1, c2)" by (cases t) auto
  from to_device_color_channels [of c0 c1 c2] obtain hv sv where
    "to_device_color (real c0 / 255) (real c1 / 255) (real c2 / 255) = Inr (hv, sv)" by blast
  from pick_color_Some [OF this] Some t show ?thesis by simp
qed

text \<open>
  C1, as the specification states it, fails: \<open>set_brightness\<close> does not clamp and does not
  write to the record. With the value 0 on the first light of the example (brightness
  100) the command carries 0, not 1, and the record keeps 100.
\<close>

theorem set_brightness_no_clamp_counterexample:
  "brightness (heap (snd (set_brightness 0 0 demo_app)) 0) = 100 \<and>
   requests (bridge (snd (set_brightness 0 0 demo_app))) = [SetField 1 ''bri'' (PyInt 0)] \<and>
   \<not> (brightness (heap (snd (set_brightness 0 0 demo_app)) 0) = 1 \<and>
      requests (bridge (snd (set_brightness 0 0 demo_app))) = [SetField 1 ''bri'' (PyInt 1)])"
  by (simp add: set_brightness_effect demo_app_def demo_bridge_def desk_def py_trunc_def)

text \<open>
  C1, amended. For every light and every value, \<open>set_brightness\<close> truncates the value
  toward zero and makes one \<open>set_light\<close> call that sets the field \<open>bri\<close> of that light to
  the truncated value; it does not clamp, and it leaves every record and the registry as
  they were. The values 0, 999 and 130.7 give 0, 999 and 130.
\<close>

theorem set_brightness_truncates:
  "fst (set_brightness r v st) =
     (if reachable (bridge st) then Inr () else Inl DeviceServiceError) \<and>
   requests (bridge (snd (set_brightness r v st))) =
     requests (bridge st) @ [SetField (light_id (heap st r)) ''bri'' (PyInt (py_trunc v))] \<and>
   heap (snd (set_brightness r v st)) = heap st \<and>
   lights (snd (set_brightness r v st)) = lights st \<and>
   py_trunc 0 = 0 \<and> py_trunc 999 = 999 \<and> py_trunc (1307 / 10) = 130"
  by (simp add: set_brightness_effect) (simp add: py_trunc_def)

text \<open>
  C3. For every light and every colour chosen, \<open>pick_color\<close> makes exactly one
  \<open>set_light\<close> call: a combined command for that light that sets \<open>hue\<close> and \<open>sat\<close> to
  the converted values and \<open>on\<close> to true, whatever the state of the light was.
\<close>

theorem pick_color_one_command:
  "\<exists>hv sv. to_device_color (real c0 / 255) (real c1 / 255) (real c2 / 255) = Inr (hv, sv) \<and>
     requests (bridge (snd (pick_color r (Some (c0, c1, c2)) st))) =
       requests (bridge st) @
         [SetFields (light_id (heap st r))
            [(''hue'', PyInt hv), (''sat'', PyInt sv), (''on'', PyBool True)]]"
proof -
  from to_device_color_channels [of c0 c1 c2] obtain hv sv where
    c: "to_device_color (real c0 / 255) (real c1 / 255) (real c2 / 255) = Inr (hv, sv)" by blast
  from pick_color_Some [OF c] have
    "requests (bridge (snd (pick_color r (Some (c0, c1, c2)) st))) =
       requests (bridge st) @
         [SetFields (light_id (heap st r))
            [(''hue'', PyInt hv), (''sat'', PyInt sv), (''on'', PyBool True)]]"
    by simp
  with c show ?thesis by blast
qed

text \<open>
  C4, as the specification states it, fails: \<open>pick_color\<close> does not write to the record.
  Green on the first light of the example (off, hue 1000, saturation 100) converts to
  hue 21845 and saturation 254, and the record is the same afterwards.
\<close>

theorem pick_color_record_counterexample:
  "to_device_color (real 0 / 255) (real 255 / 255) (real 0 / 255) = Inr (21845, 254) \<and>
   heap (snd (pick_color 0 (Some (0, 255, 0)) demo_app)) 0 = desk \<and>
   \<not> (hue (heap (snd (pick_color 0 (Some (0, 255, 0)) demo_app)) 0) = 21845 \<and>
      saturation (heap (snd (pick_color 0 (Some (0, 255, 0)) demo_app)) 0) = 254 \<and>
      state (heap (snd (pick_color 0 (Some (0, 255, 0)) demo_app)) 0) = True)"
  by (simp add: pick_color_heap to_device_color_green demo_app_def desk_def)

text \<open>
  C4, amended. For every light and every outcome of the chooser, \<open>pick_color\<close> leaves
  every record, the target's included, and the registry as they were: the converted hue
  and saturation and the value true for \<open>on\<close> go into the command to the bridge only.
\<close>

theorem pick_color_leaves_records:
  "heap (snd (pick_color r color st)) = heap st \<and>
   lights (snd (pick_color r color st)) = lights st"
  by (rule pick_color_heap)

text \<open>
  C10. When the chooser is dismissed, \<open>pick_color\<close> returns with the whole state as it
  was: no command, no change to a record or to the registry.
\<close>

theorem pick_color_dismissed: "pick_color r None st = (Inr (), st)"
  by (simp add: pick_color_def)

text \<open>
  C6, as the specification states it, fails: no handler looks the light up. On the third
  dictionary of the example, whose identifier 99 is not in the registry, \<open>toggle_light\<close>
  returns normally, sends the command for 99 and sets the state of that dictionary.
\<close>

theorem toggle_light_unknown_counterexample:
  "light_id (heap demo_app 2) \<notin> set (map (\<lambda>q. light_id (heap demo_app q)) (lights demo_app)) \<and>
   fst (toggle_light 2 True demo_app) = Inr () \<and>
   requests (bridge (snd (toggle_light 2 True demo_app))) = [SetField 99 ''on'' (PyBool True)] \<and>
   state (heap demo_app 2) = False \<and>
   state (heap (snd (toggle_light 2 True demo_app)) 2) = True \<and>
   toggle_light 2 True demo_app \<noteq> (Inl UnknownLightError, demo_app)"
  by (simp add: toggle_light_effect demo_app_def demo_bridge_def desk_def lamp_def stale_def
      prod_eq_iff)

text \<open>
  C6, amended. For a light whose identifier is not in the registry, \<open>toggle_light\<close>,
  \<open>set_brightness\<close> and \<open>pick_color\<close> do not fail with \<open>UnknownLightError\<close>; they
  leave the registry and every record of the registry as they were, and \<open>toggle_light\<close>
  still sends its command for that identifier.
\<close>

theorem handlers_unknown_light:
  assumes "light_id (heap st r) \<notin> set (map (\<lambda>q. light_id (heap st q)) (lights st))"
  shows "fst (toggle_light r v st) \<noteq> Inl UnknownLightError \<and>
         fst (set_brightness r x st) \<noteq> Inl UnknownLightError \<and>
         fst (pick_color r color st) \<noteq> Inl UnknownLightError \<and>
         lights (snd (toggle_light r v st)) = lights st \<and>
         lights (snd (set_brightness r x st)) = lights st \<and>
         lights (snd (pick_color r color st)) = lights st \<and>
         (\<forall>q \<in> set (lights st).
            heap (snd (toggle_light r v st)) q = heap st q \<and>
            heap (snd (set_brightness r x st)) q = heap st q \<and>
            heap (snd (pick_color r color st)) q = heap st q) \<and>
         requests (bridge (snd (toggle_light r v st))) =
           requests (bridge st) @ [SetField (light_id (heap st r)) ''on'' (PyBool v)]"
proof -
  have "r \<notin> set (lights st)"
  proof
    assume "r \<in> set (lights st)"
    then have "light_id (heap st r) \<in> set (map (\<lambda>q. light_id (heap st q)) (lights st))"
      by simp
    with assms show False by contradiction
  qed
  then have "\<forall>q \<in> set (lights st). q \<noteq> r" by blast
  then show ?thesis
    by (simp add: toggle_light_effect set_brightness_effect pick_color_heap pick_color_result)
qed

theorem handlers_unknown_light_witness:
  "light_id (heap demo_app 2) \<notin> set (map (\<lambda>q. light_id (heap demo_app q)) (lights demo_app)) \<and>
   fst (toggle_light 2 True demo_app) \<noteq> Inl UnknownLightError \<and>
   fst (set_brightness 2 7 demo_app) \<noteq> Inl UnknownLightError \<and>
   fst (pick_color 2 None demo_app) \<noteq> Inl UnknownLightError \<and>
   lights (snd (toggle_light 2 True demo_app)) = [0, 1] \<and>
   heap (snd (toggle_light 2 True demo_app)) 0 = desk \<and>
   heap (snd (toggle_light 2 True demo_app)) 1 = lamp \<and>
   requests (bridge (snd (toggle_light 2 True demo_app))) = [SetField 99 ''on'' (PyBool True)]"
proof -
  have h: "light_id (heap demo_app 2) \<notin>
      set (map (\<lambda>q. light_id (heap demo_app q)) (lights demo_app))"
    by (simp add: demo_app_def desk_def lamp_def stale_def)
  have l: "lights demo_app = [0, 1]" "heap demo_app 0 = desk" "heap demo_app 1 = lamp"
    "requests (bridge demo_app) = []" "light_id (heap demo_app 2) = 99"
    by (simp_all add: demo_app_def demo_bridge_def stale_def)
  from handlers_unknown_light [OF h, of True 7 None] h l show ?thesis by simp
qed

section \<open>Fetching the lights\<close>













text \<open>The example bridges, evaluated.\<close>

lemma demo_fetch: "get_lights_from_hue demo_bridge = Inr [desk, lamp]"
  by (simp add: get_lights_from_hue_def get_light_objects_def demo_bridge_def make_light_def
      desk_def lamp_def desk_dev_def lamp_dev_def int_of_str_def strip_right_def is_space_def
      is_digit_def digit_val_def)




text \<open>
  C5. Whenever the enumeration of the bridge raises, \<open>refresh_lights\<close> fails with
  \<open>DeviceServiceError\<close> and the whole state, the registry with it, is exactly what it was
  before the call: nothing is emptied or replaced.
\<close>

theorem refresh_lights_failure_atomic:
  assumes "\<not> reachable (bridge st)"
  shows "get_light_objects (bridge st) = Inl DeviceServiceError \<and>
         get_lights_from_hue (bridge st) = Inl DeviceServiceError \<and>
         refresh_lights st = (Inl DeviceServiceError, st)"
  using assms by (simp add: refresh_lights_def get_lights_from_hue_def get_light_objects_def)

theorem refresh_lights_failure_atomic_witness:
  "\<not> reachable (bridge offline_app) \<and> lights offline_app = [0, 1] \<and>
   get_light_objects (bridge offline_app) = Inl DeviceServiceError \<and>
   get_lights_from_hue (bridge offline_app) = Inl DeviceServiceError \<and>
   refresh_lights offline_app = (Inl DeviceServiceError, offline_app)"
proof -
  have h: "\<not> reachable (bridge offline_app)"
    by (simp add: offline_app_def demo_app_def demo_bridge_def)
  have l: "lights offline_app = [0, 1]" by (simp add: offline_app_def demo_app_def)
  from refresh_lights_failure_atomic [OF h] h l show ?thesis by blast
qed







section \<open>The grouping of \<open>populate_lights\<close>\<close>

lemma set_first_seen: "set (first_seen xs) = set xs"
  by (induction xs) auto

lemma distinct_first_seen: "distinct (first_seen xs)"
  by (induction xs) (auto simp: distinct_removeAll)

lemma first_seen_snoc:
  "first_seen (xs @ [y]) = (if y \<in> set xs then first_seen xs else first_seen xs @ [y])"
  by (induction xs) (auto simp: set_first_seen)

lemma pack_block_skip:
  assumes "env \<notin> set (map fst fs)"
  shows "pack_block env blk (fs @ gs) = fs @ pack_block env blk gs"
  using assms by (induction fs) auto

lemma pack_block_keys:
  assumes "distinct ks"
  shows "pack_block env blk (map (\<lambda>k. (k, f k)) ks) =
         map (\<lambda>k. (k, if k = env then f k @ [blk] else f k)) ks"
  using assms by (induction ks) auto

lemma fst_populate_step:
  "fst (populate_step h r fc) =
     pack_block (environment (h r)) (block_of h r)
       (if environment (h r) \<notin> set (map fst (fst fc))
        then fst fc @ [(environment (h r), [])] else fst fc)"
  by (simp add: populate_step_def Let_def)

lemma fold_populate_step_frames:
  "fst (fold (populate_step h) rs ([], Map.empty)) = view_of h rs"
proof (induction rs rule: rev_induct)
  case Nil
  show ?case by (simp add: view_of_def)
next
  case (snoc x xs)
  let ?env = "\<lambda>r. environment (h r)"
  let ?ks = "first_seen (map ?env xs)"
  have keys_xs: "set (map fst (view_of h xs)) = set ?ks"
    by (simp add: view_of_def comp_def)
  have "fst (fold (populate_step h) (xs @ [x]) ([], Map.empty)) =
      fst (populate_step h x (fold (populate_step h) xs ([], Map.empty)))"
    by simp
  also have "\<dots> = pack_block (?env x) (block_of h x)
        (if ?env x \<notin> set (map fst (view_of h xs)) then view_of h xs @ [(?env x, [])]
         else view_of h xs)"
    unfolding fst_populate_step snoc.IH by (rule refl)
  finally have step: "fst (fold (populate_step h) (xs @ [x]) ([], Map.empty)) =
      pack_block (?env x) (block_of h x)
        (if ?env x \<notin> set ?ks then view_of h xs @ [(?env x, [])] else view_of h xs)"
    unfolding keys_xs .
  show ?case
  proof (cases "?env x \<in> set (map ?env xs)")
    case True
    then have "?env x \<in> set ?ks" by (simp add: set_first_seen)
    with step have "fst (fold (populate_step h) (xs @ [x]) ([], Map.empty)) =
        pack_block (?env x) (block_of h x) (map (\<lambda>e. (e, group_of h xs e)) ?ks)"
      by (simp add: view_of_def)
    also have "\<dots> = map (\<lambda>e. (e, if e = ?env x then group_of h xs e @ [block_of h x]
                                     else group_of h xs e)) ?ks"
      by (rule pack_block_keys) (rule distinct_first_seen)
    also have "\<dots> = map (\<lambda>e. (e, group_of h (xs @ [x]) e)) ?ks"
      by (simp add: group_of_def)
    also have "\<dots> = view_of h (xs @ [x])"
      using True by (simp add: view_of_def first_seen_snoc)
    finally show ?thesis .
  next
    case False
    then have notin: "?env x \<notin> set ?ks" by (simp add: set_first_seen)
    have empty: "group_of h xs (?env x) = []"
    proof -
      have "\<forall>r \<in> set xs. ?env r \<noteq> ?env x"
      proof
        fix r assume "r \<in> set xs"
        then have "?env r \<in> set (map ?env xs)" by simp
        with False show "?env r \<noteq> ?env x" by metis
      qed
      then show ?thesis by (simp add: group_of_def filter_empty_conv)
    qed
    have keys: "?env x \<notin> set (map fst (view_of h xs))"
      using notin by (simp add: view_of_def comp_def)
    from step notin have "fst (fold (populate_step h) (xs @ [x]) ([], Map.empty)) =
        pack_block (?env x) (block_of h x) (view_of h xs @ [(?env x, [])])"
      by simp
    also have "\<dots> = view_of h xs @ [(?env x, [block_of h x])]"
      using keys by (simp add: pack_block_skip)
    also have "\<dots> = map (\<lambda>e. (e, group_of h (xs @ [x]) e)) (?ks @ [?env x])"
      using notin empty False by (auto simp: view_of_def group_of_def)
    also have "\<dots> = view_of h (xs @ [x])"
      using False by (simp add: view_of_def first_seen_snoc)
    finally show ?thesis .
  qed
qed

lemma light_frame_populate_lights:
  "light_frame (populate_lights st) = view_of (heap st) (lights st)"
  by (simp add: populate_lights_def Let_def fold_populate_step_frames)

lemma populate_lights_frame:
  "heap (populate_lights st) = heap st" "lights (populate_lights st) = lights st"
  by (simp_all add: populate_lights_def Let_def)

lemma populate_lights_idem: "populate_lights (populate_lights st) = populate_lights st"
  by (simp add: populate_lights_def Let_def)


lemma rooms_view:
  "light_frame (populate_lights rooms_app) =
     [(''Kitchen'', [block_of (heap rooms_app) 0, block_of (heap rooms_app) 2]),
      (''Hall'', [block_of (heap rooms_app) 1])]"
  by (simp add: populate_lights_def populate_step_def Let_def rooms_app_def demo_app_def
      desk_def lamp_def stale_def)



text \<open>
  C9. For every registry, \<open>populate_lights\<close> partitions the lights by environment: the
  frames carry the environment names in order of first occurrence, and the frame of a name
  holds exactly the blocks of the lights with that environment, in the order of the
  registry. Building twice gives the same state as building once, and the frames do not
  depend on the widgets and controls that were there before.
\<close>

theorem populate_lights_grouping:
  "map fst (light_frame (populate_lights st)) =
     first_seen (map (\<lambda>r. environment (heap st r)) (lights st)) \<and>
   (\<forall>(e, blks) \<in> set (light_frame (populate_lights st)).
      blks = map (block_of (heap st)) (filter (\<lambda>r. environment (heap st r) = e) (lights st))) \<and>
   populate_lights (populate_lights st) = populate_lights st \<and>
   light_frame (populate_lights (st\<lparr>light_frame := fr, light_controls := ctl\<rparr>)) =
     light_frame (populate_lights st)"
  by (auto simp: light_frame_populate_lights populate_lights_idem view_of_def group_of_def comp_def)


theorem populate_lights_grouping_witness:
  "(''Hall'', [block_of (heap rooms_app) 1]) \<in> set (light_frame (populate_lights rooms_app)) \<and>
   [block_of (heap rooms_app) 1] =
     map (block_of (heap rooms_app))
       (filter (\<lambda>r. environment (heap rooms_app r) = ''Hall'') (lights rooms_app)) \<and>
   map fst (light_frame (populate_lights rooms_app)) = [''Kitchen'', ''Hall''] \<and>
   first_seen (map (\<lambda>r. environment (heap rooms_app r)) (lights rooms_app)) =
     [''Kitchen'', ''Hall''] \<and>
   populate_lights (populate_lights rooms_app) = populate_lights rooms_app"
proof -
  note g = populate_lights_grouping [where st = rooms_app and fr = "[]" and ctl = Map.empty]
  have m: "(''Hall'', [block_of (heap rooms_app) 1]) \<in>
      set (light_frame (populate_lights rooms_app))"
    by (simp add: rooms_view)
  from g have "\<forall>(e, blks) \<in> set (light_frame (populate_lights rooms_app)).
      blks = map (block_of (heap rooms_app))
        (filter (\<lambda>r. environment (heap rooms_app r) = e) (lights rooms_app))"
    by blast
  with m have b: "[block_of (heap rooms_app) 1] =
     map (block_of (heap rooms_app))
       (filter (\<lambda>r. environment (heap rooms_app r) = ''Hall'') (lights rooms_app))"
    by blast
  have k: "map fst (light_frame (populate_lights rooms_app)) = [''Kitchen'', ''Hall'']"
    by (simp add: rooms_view)
  from g k have f: "first_seen (map (\<lambda>r. environment (heap rooms_app r)) (lights rooms_app)) =
     [''Kitchen'', ''Hall'']"
    by simp
  from g have i: "populate_lights (populate_lights rooms_app) = populate_lights rooms_app"
    by blast
  from m b k f i show ?thesis by blast
qed

end
